theory Spec2Isabelle
  imports Complex_Main
begin

section \<open>Channel names: Python strings, integers in decimal, the CT-window pattern\<close>

text \<open>
  Channel names are modelled as ASCII strings (\<open>string\<close> is a list of bytes). On ASCII,
  \<^verbatim>\<open>str.casefold\<close> lower-cases the letters A..Z and leaves every other character alone,
  and \<^verbatim>\<open>\d\<close> is one of the ten characters 0..9. Python's case folding and decimal
  digits outside ASCII are not part of this model.
\<close>

definition casefold_char :: "char \<Rightarrow> char" where
  "casefold_char c =
     (if (65::nat) \<le> of_char c \<and> of_char c \<le> (90::nat) then char_of (of_char c + (32::nat)) else c)"

definition casefold :: "string \<Rightarrow> string" where
  "casefold s = map casefold_char s"

definition is_digit :: "char \<Rightarrow> bool" where
  "is_digit c = ((48::nat) \<le> of_char c \<and> of_char c \<le> (57::nat))"

definition digit_char :: "nat \<Rightarrow> char" where
  "digit_char d = char_of (48 + d)"

definition digit_val :: "char \<Rightarrow> nat" where
  "digit_val c = of_char c - 48"

text \<open>\<^verbatim>\<open>str(n)\<close> for a non-negative Python int: decimal, no leading zeros.\<close>

fun str_nat :: "nat \<Rightarrow> string" where
  "str_nat n = (if n < 10 then [digit_char n] else str_nat (n div 10) @ [digit_char (n mod 10)])"

declare str_nat.simps [simp del]

text \<open>\<^verbatim>\<open>str(i)\<close> and \<^verbatim>\<open>f"{i}"\<close> for any Python int.\<close>

definition str_int :: "int \<Rightarrow> string" where
  "str_int i = (if i < 0 then CHR ''-'' # str_nat (nat (- i)) else str_nat (nat i))"

text \<open>\<^verbatim>\<open>int(s)\<close> on a string of the shape \<^verbatim>\<open>-?\d+\<close> (the only strings the resolver
  passes to it): the digits are read in base ten, leading zeros allowed.\<close>

definition nat_of_digits :: "string \<Rightarrow> nat" where
  "nat_of_digits ds = foldl (\<lambda>acc c. 10 * acc + digit_val c) 0 ds"

definition py_int :: "string \<Rightarrow> int" where
  "py_int s = (case s of
                 [] \<Rightarrow> 0
               | c # ds \<Rightarrow> if c = CHR ''-'' then - int (nat_of_digits ds) else int (nat_of_digits s))"

text \<open>One group of the pattern, \<^verbatim>\<open>-?\d+\<close>: an optional minus sign and at least one digit.\<close>

definition signed_digits :: "string \<Rightarrow> bool" where
  "signed_digits s = (case s of
                        [] \<Rightarrow> False
                      | c # ds \<Rightarrow> if c = CHR ''-'' then ds \<noteq> [] \<and> list_all is_digit ds
                                  else list_all is_digit s)"

text \<open>
  \<^verbatim>\<open>re.fullmatch(r'ct_to_(-?\d+)_(-?\d+)', s)\<close>: the two groups of the match, or None.
  No group can hold an underscore, so after the literal prefix the first group ends at the
  first underscore and the second group is all that follows it.
\<close>

definition fullmatch_ct_window :: "string \<Rightarrow> (string \<times> string) option" where
  "fullmatch_ct_window s =
     (if take 6 s = ''ct_to_'' then
        (let rest = drop 6 s;
             g1 = takeWhile (\<lambda>c. c \<noteq> CHR ''_'') rest
         in case dropWhile (\<lambda>c. c \<noteq> CHR ''_'') rest of
              [] \<Rightarrow> None
            | u # g2 \<Rightarrow> if signed_digits g1 \<and> signed_digits g2 then Some (g1, g2) else None)
      else None)"

section \<open>The scheme resolver\<close>

text \<open>
  A normalization scheme is a Python class object. The five classes of the static table are
  module-level classes; a class made by \<^verbatim>\<open>type(class_name, (ImageNormalization,), attributes)\<close>
  is a fresh object at every call of \<^verbatim>\<open>type\<close>, so it carries the number of the allocation
  that made it: two synthesized classes are the same object exactly when that number agrees.
  Besides it the class holds its \<^verbatim>\<open>__name__\<close> and the two bounds its \<^verbatim>\<open>run\<close> closure
  captured. Its third attribute,
  \<^verbatim>\<open>leaves_pixels_outside_mask_at_zero_if_use_mask_for_norm_is_true\<close>, is False in every
  synthesized class and is not read by any function here.
\<close>

datatype norm_scheme =
    CTNormalization
  | NoNormalization
  | ZScoreNormalization
  | RescaleTo01Normalization
  | RGBTo01Normalization
  | DynamicScheme nat string int int

definition channel_name_to_normalization_mapping :: "string \<rightharpoonup> norm_scheme" where
  "channel_name_to_normalization_mapping =
     map_of [(''ct'', CTNormalization),
             (''nonorm'', NoNormalization),
             (''zscore'', ZScoreNormalization),
             (''rescale_to_0_1'', RescaleTo01Normalization),
             (''rgb_to_0_1'', RGBTo01Normalization)]"

datatype error = ValueError string | AssertionError string | KeyError string

text \<open>The process-wide state: the cache dictionary and the count of classes synthesized so far.\<close>

record resolver_state =
  dynamic_normalization_classes :: "string \<rightharpoonup> norm_scheme"
  next_type_id :: nat

definition initial_state :: resolver_state where
  "initial_state = \<lparr>dynamic_normalization_classes = Map.empty, next_type_id = 0\<rparr>"

definition invalid_window_message :: "int \<Rightarrow> int \<Rightarrow> string" where
  "invalid_window_message lower upper =
     ''Invalid CT window: lower bound ('' @ str_int lower
       @ '') greater than or equal to upper bound ('' @ str_int upper @ '')''"

definition class_name_of :: "int \<Rightarrow> int \<Rightarrow> string" where
  "class_name_of lower upper =
     ''CTWindow'' @ (if lower < 0 then ''Neg'' else '''') @ str_nat (nat \<bar>lower\<bar>)
       @ ''To'' @ (if upper < 0 then ''Neg'' else '''') @ str_nat (nat \<bar>upper\<bar>)
       @ ''Normalization''"

definition get_normalization_scheme ::
    "string \<Rightarrow> resolver_state \<Rightarrow> (error + norm_scheme) \<times> resolver_state" where
  "get_normalization_scheme channel_name s =
     (case channel_name_to_normalization_mapping (casefold channel_name) of
        Some norm_scheme \<Rightarrow> (Inr norm_scheme, s)
      | None \<Rightarrow>
          (case fullmatch_ct_window (casefold channel_name) of
             Some (g1, g2) \<Rightarrow>
               (let lower = py_int g1;
                    upper = py_int g2
                in if lower \<ge> upper then (Inl (ValueError (invalid_window_message lower upper)), s)
                   else
                     (let class_name = class_name_of lower upper
                      in case dynamic_normalization_classes s class_name of
                           Some norm_scheme \<Rightarrow> (Inr norm_scheme, s)
                         | None \<Rightarrow>
                             (let norm_scheme =
                                    DynamicScheme (next_type_id s) class_name lower upper
                              in (Inr norm_scheme,
                                  s\<lparr>dynamic_normalization_classes :=
                                       (dynamic_normalization_classes s)(class_name \<mapsto> norm_scheme),
                                     next_type_id := Suc (next_type_id s)\<rparr>))))
           | None \<Rightarrow> (Inr ZScoreNormalization, s)))"

text \<open>The name a caller writes for the window \<open>lower..upper\<close>: \<^verbatim>\<open>f"ct_to_{lower}_{upper}"\<close>.\<close>

definition ct_to_name :: "int \<Rightarrow> int \<Rightarrow> string" where
  "ct_to_name lower upper = ''ct_to_'' @ str_int lower @ ''_'' @ str_int upper"


text \<open>The states the process can be in: the module's initial state and what calls make of it.\<close>

inductive reachable :: "resolver_state \<Rightarrow> bool" where
  reachable_init: "reachable initial_state"
| reachable_step: "reachable s \<Longrightarrow> reachable (snd (get_normalization_scheme n s))"

section \<open>Arrays and the run methods\<close>

text \<open>
  An array is an object on a heap: the run methods are given a reference, and whether they
  write through it or into a fresh array is what a caller can observe. The heap is the list
  of the arrays allocated so far and a reference is an index into it; a new array is put at
  the end, so its reference differs from every earlier one. Element values are real numbers:
  the rounding of the target precision is not part of this model, and a cast to a floating
  type keeps every value. The shape of an array plays no role in these methods, which work
  element by element; the data is the flat list of the elements.
\<close>

datatype float_dtype = Float16 | Float32 | Float64

datatype dtype = Floating float_dtype | Integer

record ndarray =
  arr_dtype :: dtype
  arr_data :: "real list"

type_synonym addr = nat

type_synonym heap = "ndarray list"

definition alloc :: "heap \<Rightarrow> ndarray \<Rightarrow> addr \<times> heap" where
  "alloc h a = (length h, h @ [a])"

text \<open>\<^verbatim>\<open>image.astype(dtype, copy=...)\<close>: with \<^verbatim>\<open>copy=False\<close> an array that already has
  the requested type is returned as it is; otherwise (and always with \<^verbatim>\<open>copy=True\<close>, the
  default) the result is a new array.\<close>

definition astype :: "heap \<Rightarrow> addr \<Rightarrow> float_dtype \<Rightarrow> bool \<Rightarrow> addr \<times> heap" where
  "astype h img dt copy =
     (if \<not> copy \<and> arr_dtype (h ! img) = Floating dt then (img, h)
      else alloc h \<lparr>arr_dtype = Floating dt, arr_data = arr_data (h ! img)\<rparr>)"

definition clip_value :: "real \<Rightarrow> real \<Rightarrow> real \<Rightarrow> real" where
  "clip_value a_min a_max v = min (max v a_min) a_max"

text \<open>\<^verbatim>\<open>np.clip(image, a_min, a_max, out=image)\<close> writes into the array it is given.\<close>

definition np_clip_out :: "heap \<Rightarrow> addr \<Rightarrow> real \<Rightarrow> real \<Rightarrow> heap" where
  "np_clip_out h img a_min a_max =
     h[img := (h ! img)\<lparr>arr_data := map (clip_value a_min a_max) (arr_data (h ! img))\<rparr>]"

text \<open>\<^verbatim>\<open>image.clip(a_min, a_max)\<close> without \<^verbatim>\<open>out\<close> returns a new array.\<close>

definition ndarray_clip :: "heap \<Rightarrow> addr \<Rightarrow> real \<Rightarrow> real \<Rightarrow> addr \<times> heap" where
  "ndarray_clip h img a_min a_max =
     alloc h ((h ! img)\<lparr>arr_data := map (clip_value a_min a_max) (arr_data (h ! img))\<rparr>)"

text \<open>The augmented assignments \<^verbatim>\<open>image -= x\<close> and \<^verbatim>\<open>image /= x\<close> write into the array.\<close>

definition isub :: "heap \<Rightarrow> addr \<Rightarrow> real \<Rightarrow> heap" where
  "isub h img x = h[img := (h ! img)\<lparr>arr_data := map (\<lambda>v. v - x) (arr_data (h ! img))\<rparr>]"

definition itruediv :: "heap \<Rightarrow> addr \<Rightarrow> real \<Rightarrow> heap" where
  "itruediv h img x = h[img := (h ! img)\<lparr>arr_data := map (\<lambda>v. v / x) (arr_data (h ! img))\<rparr>]"

text \<open>Python's \<^verbatim>\<open>max(a, b)\<close> keeps the first argument unless the second is greater.\<close>

definition py_max :: "real \<Rightarrow> real \<Rightarrow> real" where
  "py_max a b = (if b > a then b else a)"

text \<open>
  The fields of a strategy object that the run methods read. They are set by the constructor
  of the base class \<^verbatim>\<open>ImageNormalization\<close>, which lies outside these sources:
  \<^verbatim>\<open>intensityproperties\<close> is None or a dictionary, \<^verbatim>\<open>target_dtype\<close> a floating type.
\<close>

record image_normalization =
  intensityproperties :: "(string \<rightharpoonup> real) option"
  target_dtype :: float_dtype

text \<open>
  \<^verbatim>\<open>CTWindowNeg15To115Normalization.run\<close> and \<^verbatim>\<open>CTWindowNeg100To200Normalization.run\<close>
  have the same body but for the two constants \<^verbatim>\<open>lower_bound\<close> and \<^verbatim>\<open>upper_bound\<close>. The
  argument \<^verbatim>\<open>seg\<close> is never read and is left out. The result is the returned reference or
  the exception, and the heap as the call leaves it.
\<close>

definition ct_window_run ::
    "int \<Rightarrow> int \<Rightarrow> image_normalization \<Rightarrow> addr \<Rightarrow> heap \<Rightarrow> (error + addr) \<times> heap" where
  "ct_window_run lower_bound upper_bound self img h =
     (case intensityproperties self of
        None \<Rightarrow> (Inl (AssertionError ''CTNormalization requires intensity properties''), h)
      | Some props \<Rightarrow>
          (case props ''mean'' of
             None \<Rightarrow> (Inl (KeyError ''mean''), h)
           | Some mean_intensity \<Rightarrow>
               (case props ''std'' of
                  None \<Rightarrow> (Inl (KeyError ''std''), h)
                | Some std_intensity \<Rightarrow>
                    (let (image1, h1) = astype h img (target_dtype self) False;
                         h2 = np_clip_out h1 image1 (of_int lower_bound) (of_int upper_bound);
                         h3 = isub h2 image1 mean_intensity;
                         h4 = itruediv h3 image1 (py_max std_intensity (1 / 100000000))
                     in (Inr image1, h4)))))"

definition CTWindowNeg15To115Normalization_run ::
    "image_normalization \<Rightarrow> addr \<Rightarrow> heap \<Rightarrow> (error + addr) \<times> heap" where
  "CTWindowNeg15To115Normalization_run = ct_window_run (- 15) 115"

definition CTWindowNeg100To200Normalization_run ::
    "image_normalization \<Rightarrow> addr \<Rightarrow> heap \<Rightarrow> (error + addr) \<times> heap" where
  "CTWindowNeg100To200Normalization_run = ct_window_run (- 100) 200"

text \<open>
  \<^verbatim>\<open>create_run_method(lower_bound, upper_bound)\<close> is the \<^verbatim>\<open>run\<close> attribute of the class
  \<open>DynamicScheme i name lower_bound upper_bound\<close>.
\<close>

definition create_run_method ::
    "int \<Rightarrow> int \<Rightarrow> image_normalization \<Rightarrow> addr \<Rightarrow> heap \<Rightarrow> (error + addr) \<times> heap" where
  "create_run_method lower_bound upper_bound self img h =
     (case intensityproperties self of
        None \<Rightarrow>
          (Inl (AssertionError ''Custom range CT normalization requires intensity properties''), h)
      | Some props \<Rightarrow>
          (case props ''mean'' of
             None \<Rightarrow> (Inl (KeyError ''mean''), h)
           | Some mean_intensity \<Rightarrow>
               (case props ''std'' of
                  None \<Rightarrow> (Inl (KeyError ''std''), h)
                | Some std_intensity \<Rightarrow>
                    (let (image1, h1) = astype h img (target_dtype self) True;
                         (image2, h2) = ndarray_clip h1 image1 (of_int lower_bound) (of_int upper_bound);
                         h3 = isub h2 image2 mean_intensity;
                         h4 = itruediv h3 image2 (py_max std_intensity (1 / 100000000))
                     in (Inr image2, h4)))))"

section \<open>Decimal strings and the pattern\<close>

lemma is_digit_digit_char: "d < 10 \<Longrightarrow> is_digit (digit_char d)"
  by (simp add: is_digit_def digit_char_def)

lemma digit_val_digit_char: "d < 10 \<Longrightarrow> digit_val (digit_char d) = d"
  by (simp add: digit_val_def digit_char_def)

lemma str_nat_digits: "list_all is_digit (str_nat n)"
proof (induction n rule: str_nat.induct)
  case (1 n)
  show ?case
  proof (cases "n < 10")
    case True
    then show ?thesis by (subst str_nat.simps) (simp add: is_digit_digit_char)
  next
    case False
    with 1 show ?thesis by (subst str_nat.simps) (simp add: is_digit_digit_char)
  qed
qed

lemma str_nat_nonempty: "str_nat n \<noteq> []"
  by (subst str_nat.simps) simp

lemma nat_of_digits_snoc: "nat_of_digits (ds @ [c]) = 10 * nat_of_digits ds + digit_val c"
  by (simp add: nat_of_digits_def)

lemma nat_of_digits_str_nat: "nat_of_digits (str_nat n) = n"
proof (induction n rule: str_nat.induct)
  case (1 n)
  show ?case
  proof (cases "n < 10")
    case True
    then show ?thesis
      by (subst str_nat.simps) (simp add: nat_of_digits_def digit_val_digit_char)
  next
    case False
    with 1 show ?thesis
      by (subst str_nat.simps) (simp add: nat_of_digits_snoc digit_val_digit_char)
  qed
qed

lemma str_nat_inject: "str_nat m = str_nat n \<Longrightarrow> m = n"
  by (metis nat_of_digits_str_nat)

lemma is_digit_not_minus: "is_digit c \<Longrightarrow> c \<noteq> CHR ''-''"
  by (auto simp: is_digit_def)

lemma is_digit_not_underscore: "is_digit c \<Longrightarrow> c \<noteq> CHR ''_''"
  by (auto simp: is_digit_def)

lemma hd_str_nat_digit: "is_digit (hd (str_nat n))"
  using str_nat_digits [of n] str_nat_nonempty [of n]
  by (cases "str_nat n") simp_all

lemma signed_digits_str_int: "signed_digits (str_int i)"
proof (cases "i < 0")
  case True
  then show ?thesis
    by (simp add: signed_digits_def str_int_def str_nat_nonempty str_nat_digits)
next
  case False
  obtain c cs where eq: "str_nat (nat i) = c # cs"
    using str_nat_nonempty [of "nat i"] by (cases "str_nat (nat i)") auto
  have "is_digit c" using hd_str_nat_digit [of "nat i"] eq by simp
  then have "c \<noteq> CHR ''-''" by (rule is_digit_not_minus)
  moreover have "list_all is_digit (c # cs)" using str_nat_digits [of "nat i"] eq by simp
  ultimately show ?thesis using False eq
    by (simp add: signed_digits_def str_int_def)
qed

lemma py_int_str_int: "py_int (str_int i) = i"
proof (cases "i < 0")
  case True
  then show ?thesis
    by (simp add: py_int_def str_int_def nat_of_digits_str_nat)
next
  case False
  obtain c cs where eq: "str_nat (nat i) = c # cs"
    using str_nat_nonempty [of "nat i"] by (cases "str_nat (nat i)") auto
  have "is_digit c" using hd_str_nat_digit [of "nat i"] eq by simp
  then have "c \<noteq> CHR ''-''" by (rule is_digit_not_minus)
  moreover have "nat_of_digits (c # cs) = nat i" using nat_of_digits_str_nat [of "nat i"] eq by simp
  ultimately show ?thesis using False eq
    by (simp add: py_int_def str_int_def)
qed

lemma signed_digits_no_underscore: "signed_digits g \<Longrightarrow> CHR ''_'' \<notin> set g"
  by (auto simp: signed_digits_def list_all_iff split: list.splits if_splits
      dest: is_digit_not_underscore)

lemma fullmatch_ct_window_iff:
  "fullmatch_ct_window s = Some (g1, g2) \<longleftrightarrow>
     s = ''ct_to_'' @ g1 @ ''_'' @ g2 \<and> signed_digits g1 \<and> signed_digits g2"
proof
  assume m: "fullmatch_ct_window s = Some (g1, g2)"
  then have pre: "take 6 s = ''ct_to_''"
    by (simp add: fullmatch_ct_window_def split: if_splits)
  from m pre obtain u where
    d: "dropWhile (\<lambda>c. c \<noteq> CHR ''_'') (drop 6 s) = u # g2"
    and g1: "g1 = takeWhile (\<lambda>c. c \<noteq> CHR ''_'') (drop 6 s)"
    and sd: "signed_digits g1" "signed_digits g2"
    by (auto simp: fullmatch_ct_window_def Let_def split: list.splits if_splits)
  have "u = CHR ''_''"
    using hd_dropWhile [of "\<lambda>c. c \<noteq> CHR ''_''" "drop 6 s"] d by simp
  then have "drop 6 s = g1 @ ''_'' @ g2"
    using takeWhile_dropWhile_id [of "\<lambda>c. c \<noteq> CHR ''_''" "drop 6 s"] d g1 by simp
  then have "s = ''ct_to_'' @ g1 @ ''_'' @ g2"
    using append_take_drop_id [of 6 s] pre by simp
  with sd show "s = ''ct_to_'' @ g1 @ ''_'' @ g2 \<and> signed_digits g1 \<and> signed_digits g2"
    by simp
next
  assume a: "s = ''ct_to_'' @ g1 @ ''_'' @ g2 \<and> signed_digits g1 \<and> signed_digits g2"
  then have nu: "\<forall>c\<in>set g1. c \<noteq> CHR ''_''"
    using signed_digits_no_underscore [of g1] by auto
  have t: "takeWhile (\<lambda>c. c \<noteq> CHR ''_'') (g1 @ ''_'' @ g2) = g1"
    using nu by (simp add: takeWhile_tail)
  have dr: "dropWhile (\<lambda>c. c \<noteq> CHR ''_'') (g1 @ ''_'' @ g2) = ''_'' @ g2"
    using nu by (simp add: dropWhile_append)
  show "fullmatch_ct_window s = Some (g1, g2)"
    using a t dr by (simp add: fullmatch_ct_window_def)
qed

section \<open>Resolving names\<close>

lemma casefold_char_digit: "is_digit c \<Longrightarrow> casefold_char c = c"
  by (simp add: is_digit_def casefold_char_def)

lemma casefold_digits: "list_all is_digit ds \<Longrightarrow> casefold ds = ds"
  by (induction ds) (simp_all add: casefold_def casefold_char_digit)

lemma casefold_append: "casefold (xs @ ys) = casefold xs @ casefold ys"
  by (simp add: casefold_def)

lemma casefold_str_int: "casefold (str_int i) = str_int i"
proof (cases "i < 0")
  case True
  have "casefold (str_nat (nat (- i))) = str_nat (nat (- i))"
    by (rule casefold_digits) (rule str_nat_digits)
  then have "map casefold_char (str_nat (nat (- i))) = str_nat (nat (- i))"
    by (simp add: casefold_def)
  with True show ?thesis
    by (simp add: str_int_def casefold_def casefold_char_def)
next
  case False
  then show ?thesis
    by (simp add: str_int_def casefold_digits str_nat_digits)
qed

lemma casefold_ct_to_name: "casefold (ct_to_name lower upper) = ct_to_name lower upper"
proof -
  have "casefold ''ct_to_'' = ''ct_to_''" "casefold ''_'' = ''_''"
    by (simp_all add: casefold_def casefold_char_def)
  then show ?thesis
    by (simp only: ct_to_name_def casefold_append casefold_str_int)
qed

lemma mapping_ct_to_prefix: "channel_name_to_normalization_mapping (''ct_to_'' @ r) = None"
  by (simp add: channel_name_to_normalization_mapping_def)

lemma fullmatch_ct_to_name:
  "fullmatch_ct_window (ct_to_name lower upper) = Some (str_int lower, str_int upper)"
  by (simp add: fullmatch_ct_window_iff ct_to_name_def signed_digits_str_int)

lemma fullmatch_not_in_mapping:
  "fullmatch_ct_window s = Some g \<Longrightarrow> channel_name_to_normalization_mapping s = None"
proof -
  assume m: "fullmatch_ct_window s = Some g"
  obtain g1 g2 where g: "g = (g1, g2)" by (cases g)
  from m g have "s = ''ct_to_'' @ (g1 @ ''_'' @ g2)"
    by (simp only: fullmatch_ct_window_iff)
  then show ?thesis by (simp only: mapping_ct_to_prefix)
qed

lemma get_ct_to_name:
  "lower < upper \<Longrightarrow>
   get_normalization_scheme (ct_to_name lower upper) s =
     (case dynamic_normalization_classes s (class_name_of lower upper) of
        Some t \<Rightarrow> (Inr t, s)
      | None \<Rightarrow>
          (Inr (DynamicScheme (next_type_id s) (class_name_of lower upper) lower upper),
           s\<lparr>dynamic_normalization_classes :=
                (dynamic_normalization_classes s)
                  (class_name_of lower upper \<mapsto>
                     DynamicScheme (next_type_id s) (class_name_of lower upper) lower upper),
              next_type_id := Suc (next_type_id s)\<rparr>))"
  by (simp add: get_normalization_scheme_def casefold_ct_to_name fullmatch_ct_to_name
      fullmatch_not_in_mapping py_int_str_int Let_def split: option.split)








lemma digits_split:
  assumes "list_all is_digit ds" "list_all is_digit ds'" "\<not> is_digit c" "\<not> is_digit c'"
    and "ds @ c # r = ds' @ c' # r'"
  shows "ds = ds' \<and> c # r = c' # r'"
proof -
  have "takeWhile is_digit (ds @ c # r) = ds" "dropWhile is_digit (ds @ c # r) = c # r"
    using assms(1,3) by (simp_all add: list_all_iff takeWhile_tail dropWhile_append)
  moreover have "takeWhile is_digit (ds' @ c' # r') = ds'"
    "dropWhile is_digit (ds' @ c' # r') = c' # r'"
    using assms(2,4) by (simp_all add: list_all_iff takeWhile_tail dropWhile_append)
  ultimately show ?thesis using assms(5) by simp
qed

lemma not_digit_N: "\<not> is_digit CHR ''N''" and not_digit_T: "\<not> is_digit CHR ''T''"
  by (simp_all add: is_digit_def)

lemma bound_part_inject:
  assumes "\<not> is_digit c" "\<not> is_digit c'"
    and "(if i < 0 then ''Neg'' else '''') @ str_nat (nat \<bar>i\<bar>) @ c # r
         = (if j < 0 then ''Neg'' else '''') @ str_nat (nat \<bar>j\<bar>) @ c' # r'"
  shows "i = j \<and> c # r = c' # r'"
proof -
  have no_N: "str_nat n @ xs \<noteq> CHR ''N'' # ys" for n xs ys
  proof -
    obtain d ds where eq: "str_nat n = d # ds"
      using str_nat_nonempty [of n] by (cases "str_nat n") auto
    then have "is_digit d" using hd_str_nat_digit [of n] by simp
    then have "d \<noteq> CHR ''N''" using not_digit_N by auto
    then show ?thesis using eq by simp
  qed
  have sign: "i < 0 \<longleftrightarrow> j < 0"
  proof (cases "i < 0")
    case True
    show ?thesis
    proof (cases "j < 0")
      case False
      with True assms(3) have "str_nat (nat \<bar>j\<bar>) @ c' # r' = CHR ''N'' # ''eg'' @ str_nat (nat \<bar>i\<bar>) @ c # r"
        by simp
      then show ?thesis using no_N by blast
    qed (use True in simp)
  next
    case False
    show ?thesis
    proof (cases "j < 0")
      case True
      with False assms(3) have "str_nat (nat \<bar>i\<bar>) @ c # r = CHR ''N'' # ''eg'' @ str_nat (nat \<bar>j\<bar>) @ c' # r'"
        by simp
      then show ?thesis using no_N by blast
    qed (use False in simp)
  qed
  then have "str_nat (nat \<bar>i\<bar>) @ c # r = str_nat (nat \<bar>j\<bar>) @ c' # r'"
    using assms(3) by (simp split: if_splits)
  then have "str_nat (nat \<bar>i\<bar>) = str_nat (nat \<bar>j\<bar>) \<and> c # r = c' # r'"
    using digits_split [OF str_nat_digits str_nat_digits assms(1,2)] by blast
  then have "nat \<bar>i\<bar> = nat \<bar>j\<bar>" and rest: "c # r = c' # r'"
    by (auto dest: str_nat_inject)
  then have "i = j" using sign by linarith
  with rest show ?thesis by simp
qed

lemma class_name_of_inject:
  assumes "class_name_of l u = class_name_of l' u'"
  shows "l = l' \<and> u = u'"
proof -
  from assms have
    "(if l < 0 then ''Neg'' else '''') @ str_nat (nat \<bar>l\<bar>) @ CHR ''T'' #
        (''o'' @ (if u < 0 then ''Neg'' else '''') @ str_nat (nat \<bar>u\<bar>) @ ''Normalization'')
     = (if l' < 0 then ''Neg'' else '''') @ str_nat (nat \<bar>l'\<bar>) @ CHR ''T'' #
        (''o'' @ (if u' < 0 then ''Neg'' else '''') @ str_nat (nat \<bar>u'\<bar>) @ ''Normalization'')"
    by (simp add: class_name_of_def)
  from bound_part_inject [OF not_digit_T not_digit_T this]
  have l: "l = l'" and
    "(if u < 0 then ''Neg'' else '''') @ str_nat (nat \<bar>u\<bar>) @ CHR ''N'' # ''ormalization''
     = (if u' < 0 then ''Neg'' else '''') @ str_nat (nat \<bar>u'\<bar>) @ CHR ''N'' # ''ormalization''"
    by simp_all
  from bound_part_inject [OF not_digit_N not_digit_N this(2)] l
  show ?thesis by simp
qed

text \<open>
  C2. When the case-folded name is ct_to_, a group -?digits, an underscore and a second such
  group, and the integer of the first group is greater than or equal to the integer of the
  second, the call raises ValueError with the message that states both integers; no type is
  returned and the state is as before.
\<close>

theorem invalid_window_raises:
  assumes "casefold channel_name = ''ct_to_'' @ g1 @ ''_'' @ g2"
    and "signed_digits g1" and "signed_digits g2"
    and "py_int g1 = lower" and "py_int g2 = upper"
    and "lower \<ge> upper"
  shows "get_normalization_scheme channel_name s =
           (Inl (ValueError (''Invalid CT window: lower bound ('' @ str_int lower
                   @ '') greater than or equal to upper bound ('' @ str_int upper @ '')'')), s)"
proof -
  have m: "fullmatch_ct_window (casefold channel_name) = Some (g1, g2)"
    using assms(1-3) by (simp only: fullmatch_ct_window_iff)
  then have "channel_name_to_normalization_mapping (casefold channel_name) = None"
    by (rule fullmatch_not_in_mapping)
  with m assms(4-6) show ?thesis
    by (simp add: get_normalization_scheme_def invalid_window_message_def)
qed

theorem invalid_window_raises_witness:
  "casefold ''CT_to_5_-3'' = ''ct_to_'' @ ''5'' @ ''_'' @ ''-3''
   \<and> signed_digits ''5'' \<and> signed_digits ''-3''
   \<and> py_int ''5'' = 5 \<and> py_int ''-3'' = - 3 \<and> (5::int) \<ge> - 3
   \<and> get_normalization_scheme ''CT_to_5_-3'' initial_state =
        (Inl (ValueError
           ''Invalid CT window: lower bound (5) greater than or equal to upper bound (-3)''),
         initial_state)"
proof -
  have a: "casefold ''CT_to_5_-3'' = ''ct_to_'' @ ''5'' @ ''_'' @ ''-3''" by code_simp
  have b: "signed_digits ''5''" "signed_digits ''-3''" by code_simp+
  have c: "py_int ''5'' = 5" "py_int ''-3'' = - 3" by code_simp+
  have d: "(5::int) \<ge> - 3" by simp
  have e: "str_int 5 = ''5''" "str_int (- 3) = ''-3''" by code_simp+
  show ?thesis
    using invalid_window_raises [OF a b c d, of initial_state] a b c
    by (simp add: e)
qed

text \<open>
  C10. A call that raises leaves the process-wide state, and with it the cache, exactly as
  it was.
\<close>

theorem error_leaves_cache_unchanged:
  assumes "fst (get_normalization_scheme channel_name s) = Inl e"
  shows "snd (get_normalization_scheme channel_name s) = s
         \<and> (\<exists>lower upper. lower \<ge> upper \<and> e = ValueError (invalid_window_message lower upper))"
  using assms
  by (auto simp: get_normalization_scheme_def Let_def split: option.splits prod.splits if_splits)

theorem error_leaves_cache_unchanged_witness:
  "fst (get_normalization_scheme ''ct_to_5_5''
          (snd (get_normalization_scheme ''ct_to_-15_115'' initial_state)))
     = Inl (ValueError
         ''Invalid CT window: lower bound (5) greater than or equal to upper bound (5)'')
   \<and> snd (get_normalization_scheme ''ct_to_5_5''
          (snd (get_normalization_scheme ''ct_to_-15_115'' initial_state)))
     = snd (get_normalization_scheme ''ct_to_-15_115'' initial_state)
   \<and> dynamic_normalization_classes
        (snd (get_normalization_scheme ''ct_to_5_5''
           (snd (get_normalization_scheme ''ct_to_-15_115'' initial_state))))
        ''CTWindowNeg15To115Normalization''
     = Some (DynamicScheme 0 ''CTWindowNeg15To115Normalization'' (- 15) 115)"
proof -
  have a: "fst (get_normalization_scheme ''ct_to_5_5''
              (snd (get_normalization_scheme ''ct_to_-15_115'' initial_state)))
           = Inl (ValueError
               ''Invalid CT window: lower bound (5) greater than or equal to upper bound (5)'')"
    by code_simp
  have b: "dynamic_normalization_classes
             (snd (get_normalization_scheme ''ct_to_-15_115'' initial_state))
             ''CTWindowNeg15To115Normalization''
           = Some (DynamicScheme 0 ''CTWindowNeg15To115Normalization'' (- 15) 115)"
    by code_simp
  show ?thesis
    using error_leaves_cache_unchanged [OF a] a b by simp
qed

text \<open>
  C4. A name whose case-folded form is a key of the static table resolves to the type the
  table holds for it, at once and without touching the cache: the table is consulted before
  the pattern and before the fallback, so this holds for every name found in it. The five
  keys ct, nonorm, zscore, rescale_to_0_1 and rgb_to_0_1 give CTNormalization,
  NoNormalization, ZScoreNormalization, RescaleTo01Normalization and RGBTo01Normalization.
\<close>

theorem exact_match_tier:
  "(channel_name_to_normalization_mapping (casefold channel_name) = Some t \<longrightarrow>
      get_normalization_scheme channel_name s = (Inr t, s))
   \<and> (casefold channel_name = ''ct'' \<longrightarrow>
      get_normalization_scheme channel_name s = (Inr CTNormalization, s))
   \<and> (casefold channel_name = ''nonorm'' \<longrightarrow>
      get_normalization_scheme channel_name s = (Inr NoNormalization, s))
   \<and> (casefold channel_name = ''zscore'' \<longrightarrow>
      get_normalization_scheme channel_name s = (Inr ZScoreNormalization, s))
   \<and> (casefold channel_name = ''rescale_to_0_1'' \<longrightarrow>
      get_normalization_scheme channel_name s = (Inr RescaleTo01Normalization, s))
   \<and> (casefold channel_name = ''rgb_to_0_1'' \<longrightarrow>
      get_normalization_scheme channel_name s = (Inr RGBTo01Normalization, s))"
  by (simp add: get_normalization_scheme_def channel_name_to_normalization_mapping_def)

theorem exact_match_tier_witness:
  "get_normalization_scheme ''CT'' initial_state = (Inr CTNormalization, initial_state)
   \<and> get_normalization_scheme ''NoNorm'' initial_state = (Inr NoNormalization, initial_state)
   \<and> get_normalization_scheme ''zscore'' initial_state = (Inr ZScoreNormalization, initial_state)
   \<and> get_normalization_scheme ''Rescale_To_0_1'' initial_state
       = (Inr RescaleTo01Normalization, initial_state)
   \<and> get_normalization_scheme ''RGB_to_0_1'' initial_state
       = (Inr RGBTo01Normalization, initial_state)"
proof -
  have "casefold ''CT'' = ''ct''" "casefold ''NoNorm'' = ''nonorm''"
    "casefold ''zscore'' = ''zscore''" "casefold ''Rescale_To_0_1'' = ''rescale_to_0_1''"
    "casefold ''RGB_to_0_1'' = ''rgb_to_0_1''"
    by code_simp+
  then show ?thesis
    using exact_match_tier [of "''CT''" CTNormalization initial_state]
      exact_match_tier [of "''NoNorm''" NoNormalization initial_state]
      exact_match_tier [of "''zscore''" ZScoreNormalization initial_state]
      exact_match_tier [of "''Rescale_To_0_1''" RescaleTo01Normalization initial_state]
      exact_match_tier [of "''RGB_to_0_1''" RGBTo01Normalization initial_state]
    by simp
qed

text \<open>
  C5. A name whose case-folded form is not a key of the static table and is not ct_to_, a
  group -?digits, an underscore and a second such group resolves to ZScoreNormalization;
  the call does not raise and leaves the state as it was.
\<close>

theorem fallback_is_zscore:
  assumes "casefold channel_name \<notin> dom channel_name_to_normalization_mapping"
    and "\<not> (\<exists>g1 g2. casefold channel_name = ''ct_to_'' @ g1 @ ''_'' @ g2
                 \<and> signed_digits g1 \<and> signed_digits g2)"
  shows "get_normalization_scheme channel_name s = (Inr ZScoreNormalization, s)"
proof -
  have "channel_name_to_normalization_mapping (casefold channel_name) = None"
    using assms(1) by (simp add: domIff)
  moreover have "fullmatch_ct_window (casefold channel_name) = None"
  proof (cases "fullmatch_ct_window (casefold channel_name)")
    case (Some g)
    obtain g1 g2 where "g = (g1, g2)" by (cases g)
    with Some assms(2) show ?thesis by (auto simp: fullmatch_ct_window_iff)
  qed simp
  ultimately show ?thesis by (simp add: get_normalization_scheme_def)
qed

theorem fallback_is_zscore_witness:
  "casefold ''CT_to_5_'' \<notin> dom channel_name_to_normalization_mapping
   \<and> \<not> (\<exists>g1 g2. casefold ''CT_to_5_'' = ''ct_to_'' @ g1 @ ''_'' @ g2
             \<and> signed_digits g1 \<and> signed_digits g2)
   \<and> get_normalization_scheme ''CT_to_5_'' initial_state = (Inr ZScoreNormalization, initial_state)"
proof -
  have cf: "casefold ''CT_to_5_'' = ''ct_to_5_''" by code_simp
  have a: "casefold ''CT_to_5_'' \<notin> dom channel_name_to_normalization_mapping"
    by (simp add: cf domIff channel_name_to_normalization_mapping_def)
  have n: "fullmatch_ct_window ''ct_to_5_'' = None" by code_simp
  have b: "\<not> (\<exists>g1 g2. casefold ''CT_to_5_'' = ''ct_to_'' @ g1 @ ''_'' @ g2
             \<and> signed_digits g1 \<and> signed_digits g2)"
  proof
    assume "\<exists>g1 g2. casefold ''CT_to_5_'' = ''ct_to_'' @ g1 @ ''_'' @ g2
             \<and> signed_digits g1 \<and> signed_digits g2"
    then obtain g1 g2 where "fullmatch_ct_window ''ct_to_5_'' = Some (g1, g2)"
      unfolding cf fullmatch_ct_window_iff by blast
    with n show False by simp
  qed
  show ?thesis using fallback_is_zscore [OF a b, of initial_state] a b by simp
qed

lemma get_keeps_cache_shape:
  assumes "\<forall>k t. dynamic_normalization_classes s k = Some t \<longrightarrow>
             (\<exists>i l u. l < u \<and> k = class_name_of l u \<and> t = DynamicScheme i k l u)"
  shows "\<forall>k t. dynamic_normalization_classes (snd (get_normalization_scheme n s)) k = Some t \<longrightarrow>
           (\<exists>i l u. l < u \<and> k = class_name_of l u \<and> t = DynamicScheme i k l u)"
  using assms
  by (auto simp: get_normalization_scheme_def Let_def split: option.splits prod.splits if_splits)

lemma reachable_cache_shape:
  "reachable s \<Longrightarrow>
   \<forall>k t. dynamic_normalization_classes s k = Some t \<longrightarrow>
     (\<exists>i l u. l < u \<and> k = class_name_of l u \<and> t = DynamicScheme i k l u)"
proof (induction rule: reachable.induct)
  case reachable_init
  show ?case by (simp add: initial_state_def)
next
  case (reachable_step s n)
  then show ?case by (intro get_keeps_cache_shape)
qed

text \<open>
  C9. The canonical class name determines the bound pair: two different pairs of integers
  never have the same class name. Hence, in every state the process can reach, the type
  returned for ct_to_{lower}_{upper} with lower < upper is a synthesized type that carries
  this class name and exactly the bounds lower and upper, whether it was just made or taken
  from the cache.
\<close>

theorem class_name_injective_and_bounds_exact:
  "((lower, upper) \<noteq> (lower', upper') \<longrightarrow> class_name_of lower upper \<noteq> class_name_of lower' upper')
   \<and> (reachable s \<and> lower < upper \<longrightarrow>
        (\<exists>i. fst (get_normalization_scheme (ct_to_name lower upper) s)
               = Inr (DynamicScheme i (class_name_of lower upper) lower upper)))"
proof (intro conjI impI)
  assume "(lower, upper) \<noteq> (lower', upper')"
  then show "class_name_of lower upper \<noteq> class_name_of lower' upper'"
    using class_name_of_inject [of lower upper lower' upper'] by auto
next
  assume a: "reachable s \<and> lower < upper"
  show "\<exists>i. fst (get_normalization_scheme (ct_to_name lower upper) s)
               = Inr (DynamicScheme i (class_name_of lower upper) lower upper)"
  proof (cases "dynamic_normalization_classes s (class_name_of lower upper)")
    case None
    with a show ?thesis by (simp add: get_ct_to_name)
  next
    case (Some t)
    with a reachable_cache_shape [of s] obtain i l u where
      "class_name_of lower upper = class_name_of l u"
      "t = DynamicScheme i (class_name_of lower upper) l u"
      by blast
    then have "t = DynamicScheme i (class_name_of lower upper) lower upper"
      using class_name_of_inject [of lower upper l u] by simp
    with a Some show ?thesis by (simp add: get_ct_to_name)
  qed
qed

theorem class_name_injective_and_bounds_exact_witness:
  "((- 15, 115) \<noteq> (15 :: int, 115 :: int)
     \<and> ''CTWindowNeg15To115Normalization'' \<noteq> ''CTWindow15To115Normalization'')
   \<and> reachable (snd (get_normalization_scheme ''ct_to_-100_200'' initial_state))
   \<and> (- 15 :: int) < 115
   \<and> fst (get_normalization_scheme ''ct_to_-15_115''
             (snd (get_normalization_scheme ''ct_to_-100_200'' initial_state)))
       = Inr (DynamicScheme 1 ''CTWindowNeg15To115Normalization'' (- 15) 115)"
proof -
  have r: "reachable (snd (get_normalization_scheme ''ct_to_-100_200'' initial_state))"
    by (intro reachable.intros)
  have n: "class_name_of (- 15) 115 = ''CTWindowNeg15To115Normalization''"
    "class_name_of 15 115 = ''CTWindow15To115Normalization''"
    "ct_to_name (- 15) 115 = ''ct_to_-15_115''"
    by code_simp+
  have v: "fst (get_normalization_scheme ''ct_to_-15_115''
             (snd (get_normalization_scheme ''ct_to_-100_200'' initial_state)))
       = Inr (DynamicScheme 1 ''CTWindowNeg15To115Normalization'' (- 15) 115)"
    by code_simp
  show ?thesis
    using class_name_injective_and_bounds_exact
      [of "- 15" 115 15 115 "snd (get_normalization_scheme ''ct_to_-100_200'' initial_state)"] r v
    by (simp add: n)
qed

section \<open>Running a CT-window strategy\<close>

lemma py_max_eq_max: "py_max a b = max a b"
  by (simp add: py_max_def max_def)

lemma py_max_floor_positive: "0 < py_max std (1 / 100000000)"
  by (simp add: py_max_def)

lemma ct_window_run_in_place:
  assumes "img < length h"
    and "intensityproperties self = Some props"
    and "props ''mean'' = Some mean" and "props ''std'' = Some std"
    and "arr_dtype (h ! img) = Floating (target_dtype self)"
  shows "ct_window_run lower upper self img h =
           (Inr img,
            h[img := (h ! img)\<lparr>arr_data :=
                 map (\<lambda>v. (clip_value (of_int lower) (of_int upper) v - mean)
                            / max std (1 / 100000000))
                   (arr_data (h ! img))\<rparr>])"
  using assms
  by (simp add: ct_window_run_def astype_def np_clip_out_def isub_def itruediv_def
      py_max_eq_max o_def)

lemma ct_window_run_cast:
  assumes "intensityproperties self = Some props"
    and "props ''mean'' = Some mean" and "props ''std'' = Some std"
    and "arr_dtype (h ! img) \<noteq> Floating (target_dtype self)"
  shows "ct_window_run lower upper self img h =
           (Inr (length h),
            h @ [\<lparr>arr_dtype = Floating (target_dtype self),
                  arr_data =
                    map (\<lambda>v. (clip_value (of_int lower) (of_int upper) v - mean)
                               / max std (1 / 100000000))
                      (arr_data (h ! img))\<rparr>])"
  using assms
  by (simp add: ct_window_run_def astype_def alloc_def np_clip_out_def isub_def itruediv_def
      py_max_eq_max o_def)

lemma create_run_method_copies:
  assumes "img < length h"
    and "intensityproperties self = Some props"
    and "props ''mean'' = Some mean" and "props ''std'' = Some std"
  shows "create_run_method lower upper self img h =
           (Inr (Suc (length h)),
            h @ [\<lparr>arr_dtype = Floating (target_dtype self), arr_data = arr_data (h ! img)\<rparr>,
                 \<lparr>arr_dtype = Floating (target_dtype self),
                  arr_data =
                    map (\<lambda>v. (clip_value (of_int lower) (of_int upper) v - mean)
                               / max std (1 / 100000000))
                      (arr_data (h ! img))\<rparr>])"
  using assms
  by (simp add: create_run_method_def astype_def alloc_def ndarray_clip_def isub_def
      itruediv_def py_max_eq_max o_def nth_append)

lemma run_without_properties:
  assumes "intensityproperties self = None"
  shows "ct_window_run lower upper self img h =
           (Inl (AssertionError ''CTNormalization requires intensity properties''), h)"
    and "create_run_method lower upper self img h =
           (Inl (AssertionError ''Custom range CT normalization requires intensity properties''), h)"
  using assms by (simp_all add: ct_window_run_def create_run_method_def)

lemma ct_window_run_data:
  assumes "img < length h"
    and "intensityproperties self = Some props"
    and "props ''mean'' = Some mean" and "props ''std'' = Some std"
  shows "\<exists>r. fst (ct_window_run lower upper self img h) = Inr r
           \<and> arr_data (snd (ct_window_run lower upper self img h) ! r)
               = map (\<lambda>v. (clip_value (of_int lower) (of_int upper) v - mean)
                          / max std (1 / 100000000))
                   (arr_data (h ! img))"
proof (cases "arr_dtype (h ! img) = Floating (target_dtype self)")
  case True
  from ct_window_run_in_place [OF assms True, of lower upper] assms(1)
  show ?thesis by simp
next
  case False
  from ct_window_run_cast [OF assms(2-4) False, of lower upper]
  show ?thesis by simp
qed

lemma create_run_method_data:
  assumes "img < length h"
    and "intensityproperties self = Some props"
    and "props ''mean'' = Some mean" and "props ''std'' = Some std"
  shows "\<exists>r. fst (create_run_method lower upper self img h) = Inr r
           \<and> arr_data (snd (create_run_method lower upper self img h) ! r)
               = map (\<lambda>v. (clip_value (of_int lower) (of_int upper) v - mean)
                          / max std (1 / 100000000))
                   (arr_data (h ! img))"
  using create_run_method_copies [OF assms, of lower upper]
  by (simp add: nth_append)

text \<open>
  C3. With intensity properties that hold a mean and a std, each run method (the two
  fixed windows -15..115 and -100..200, and the synthesized one for any bounds) returns an
  array whose elements are the input's elements v mapped to
  (clip(v, lower, upper) - mean) / max(std, 1e-8): the value is clipped first, then centred
  and scaled.
\<close>

theorem run_clips_then_centres_and_scales:
  assumes "img < length h"
    and "intensityproperties self = Some props"
    and "props ''mean'' = Some mean" and "props ''std'' = Some std"
  shows "(\<exists>r. fst (CTWindowNeg15To115Normalization_run self img h) = Inr r
            \<and> arr_data (snd (CTWindowNeg15To115Normalization_run self img h) ! r)
                = map (\<lambda>v. (clip_value (- 15) 115 v - mean) / max std (1 / 100000000))
                    (arr_data (h ! img)))
       \<and> (\<exists>r. fst (CTWindowNeg100To200Normalization_run self img h) = Inr r
            \<and> arr_data (snd (CTWindowNeg100To200Normalization_run self img h) ! r)
                = map (\<lambda>v. (clip_value (- 100) 200 v - mean) / max std (1 / 100000000))
                    (arr_data (h ! img)))
       \<and> (\<exists>r. fst (create_run_method lower upper self img h) = Inr r
            \<and> arr_data (snd (create_run_method lower upper self img h) ! r)
                = map (\<lambda>v. (clip_value (of_int lower) (of_int upper) v - mean)
                           / max std (1 / 100000000))
                    (arr_data (h ! img)))"
  using ct_window_run_data [OF assms, of "- 15" 115]
    ct_window_run_data [OF assms, of "- 100" 200]
    create_run_method_data [OF assms, of lower upper]
  by (simp add: CTWindowNeg15To115Normalization_run_def CTWindowNeg100To200Normalization_run_def)

theorem run_clips_then_centres_and_scales_witness:
  "(\<exists>r. fst (CTWindowNeg15To115Normalization_run
             \<lparr>intensityproperties = Some [''mean'' \<mapsto> 100, ''std'' \<mapsto> 50], target_dtype = Float32\<rparr>
             0 [\<lparr>arr_dtype = Floating Float32, arr_data = [500, - 1000, 50]\<rparr>]) = Inr r
      \<and> arr_data (snd (CTWindowNeg15To115Normalization_run
             \<lparr>intensityproperties = Some [''mean'' \<mapsto> 100, ''std'' \<mapsto> 50], target_dtype = Float32\<rparr>
             0 [\<lparr>arr_dtype = Floating Float32, arr_data = [500, - 1000, 50]\<rparr>]) ! r)
          = [3 / 10, - 23 / 10, - 1])
   \<and> (\<exists>r. fst (CTWindowNeg100To200Normalization_run
             \<lparr>intensityproperties = Some [''mean'' \<mapsto> 100, ''std'' \<mapsto> 50], target_dtype = Float32\<rparr>
             0 [\<lparr>arr_dtype = Floating Float32, arr_data = [500, - 1000, 50]\<rparr>]) = Inr r
      \<and> arr_data (snd (CTWindowNeg100To200Normalization_run
             \<lparr>intensityproperties = Some [''mean'' \<mapsto> 100, ''std'' \<mapsto> 50], target_dtype = Float32\<rparr>
             0 [\<lparr>arr_dtype = Floating Float32, arr_data = [500, - 1000, 50]\<rparr>]) ! r)
          = [2, - 4, - 1])
   \<and> (\<exists>r. fst (create_run_method 0 80
             \<lparr>intensityproperties = Some [''mean'' \<mapsto> 100, ''std'' \<mapsto> 50], target_dtype = Float32\<rparr>
             0 [\<lparr>arr_dtype = Floating Float32, arr_data = [500, - 1000, 50]\<rparr>]) = Inr r
      \<and> arr_data (snd (create_run_method 0 80
             \<lparr>intensityproperties = Some [''mean'' \<mapsto> 100, ''std'' \<mapsto> 50], target_dtype = Float32\<rparr>
             0 [\<lparr>arr_dtype = Floating Float32, arr_data = [500, - 1000, 50]\<rparr>]) ! r)
          = [- 2 / 5, - 2, - 1])"
  using run_clips_then_centres_and_scales
    [of 0 "[\<lparr>arr_dtype = Floating Float32, arr_data = [500, - 1000, 50]\<rparr>]"
        "\<lparr>intensityproperties = Some [''mean'' \<mapsto> 100, ''std'' \<mapsto> 50], target_dtype = Float32\<rparr>"
        "[''mean'' \<mapsto> 100, ''std'' \<mapsto> 50]" 100 50 0 80]
  by (simp add: clip_value_def)

text \<open>
  C6. Run with intensityproperties None, each of the three run methods raises
  AssertionError before it does anything else: the fixed windows with the message
  "CTNormalization requires intensity properties", the synthesized one with
  "Custom range CT normalization requires intensity properties". The heap is left as it
  was, so the input array is not changed and no array is made.
\<close>

theorem run_without_properties_fails:
  assumes "intensityproperties self = None"
  shows "CTWindowNeg15To115Normalization_run self img h
           = (Inl (AssertionError ''CTNormalization requires intensity properties''), h)
       \<and> CTWindowNeg100To200Normalization_run self img h
           = (Inl (AssertionError ''CTNormalization requires intensity properties''), h)
       \<and> create_run_method lower upper self img h
           = (Inl (AssertionError
                ''Custom range CT normalization requires intensity properties''), h)"
  using run_without_properties [OF assms]
  by (simp add: CTWindowNeg15To115Normalization_run_def CTWindowNeg100To200Normalization_run_def)

theorem run_without_properties_fails_witness:
  "CTWindowNeg15To115Normalization_run \<lparr>intensityproperties = None, target_dtype = Float32\<rparr>
       0 [\<lparr>arr_dtype = Floating Float32, arr_data = [500, - 1000]\<rparr>]
     = (Inl (AssertionError ''CTNormalization requires intensity properties''),
        [\<lparr>arr_dtype = Floating Float32, arr_data = [500, - 1000]\<rparr>])
   \<and> CTWindowNeg100To200Normalization_run \<lparr>intensityproperties = None, target_dtype = Float32\<rparr>
       0 [\<lparr>arr_dtype = Floating Float32, arr_data = [500, - 1000]\<rparr>]
     = (Inl (AssertionError ''CTNormalization requires intensity properties''),
        [\<lparr>arr_dtype = Floating Float32, arr_data = [500, - 1000]\<rparr>])
   \<and> create_run_method (- 15) 115 \<lparr>intensityproperties = None, target_dtype = Float32\<rparr>
       0 [\<lparr>arr_dtype = Floating Float32, arr_data = [500, - 1000]\<rparr>]
     = (Inl (AssertionError ''Custom range CT normalization requires intensity properties''),
        [\<lparr>arr_dtype = Floating Float32, arr_data = [500, - 1000]\<rparr>])"
  using run_without_properties_fails
    [of "\<lparr>intensityproperties = None, target_dtype = Float32\<rparr>" 0
        "[\<lparr>arr_dtype = Floating Float32, arr_data = [500, - 1000]\<rparr>]" "- 15" 115]
  by simp

text \<open>
  C7. Whatever the std of the intensity properties is, the three run methods return an
  array and raise nothing, and the number they divide by is max(std, 1e-8): it is strictly
  positive, it is 1e-8 for a std of 0 or any std up to 1e-8, and it is std itself from
  1e-8 upwards.
\<close>

theorem divisor_is_clamped_and_positive:
  assumes "img < length h"
    and "intensityproperties self = Some props"
    and "props ''mean'' = Some mean" and "props ''std'' = Some std"
  shows "py_max std (1 / 100000000) = max std (1 / 100000000)
       \<and> 0 < max std (1 / 100000000)
       \<and> (std \<le> 1 / 100000000 \<longrightarrow> py_max std (1 / 100000000) = 1 / 100000000)
       \<and> (1 / 100000000 \<le> std \<longrightarrow> py_max std (1 / 100000000) = std)
       \<and> (\<exists>r. fst (CTWindowNeg15To115Normalization_run self img h) = Inr r
            \<and> arr_data (snd (CTWindowNeg15To115Normalization_run self img h) ! r)
                = map (\<lambda>v. (clip_value (- 15) 115 v - mean) / max std (1 / 100000000))
                    (arr_data (h ! img)))
       \<and> (\<exists>r. fst (CTWindowNeg100To200Normalization_run self img h) = Inr r
            \<and> arr_data (snd (CTWindowNeg100To200Normalization_run self img h) ! r)
                = map (\<lambda>v. (clip_value (- 100) 200 v - mean) / max std (1 / 100000000))
                    (arr_data (h ! img)))
       \<and> (\<exists>r. fst (create_run_method lower upper self img h) = Inr r
            \<and> arr_data (snd (create_run_method lower upper self img h) ! r)
                = map (\<lambda>v. (clip_value (of_int lower) (of_int upper) v - mean)
                           / max std (1 / 100000000))
                    (arr_data (h ! img)))"
proof -
  have eq: "py_max std (1 / 100000000) = max std (1 / 100000000)"
    by (rule py_max_eq_max)
  have pos: "0 < max std (1 / 100000000)"
    using py_max_floor_positive [of std] by (simp only: eq)
  have low: "std \<le> 1 / 100000000 \<longrightarrow> py_max std (1 / 100000000) = 1 / 100000000"
    by (simp add: py_max_def)
  have high: "1 / 100000000 \<le> std \<longrightarrow> py_max std (1 / 100000000) = std"
    by (simp add: py_max_def)
  have r15: "\<exists>r. fst (CTWindowNeg15To115Normalization_run self img h) = Inr r
            \<and> arr_data (snd (CTWindowNeg15To115Normalization_run self img h) ! r)
                = map (\<lambda>v. (clip_value (- 15) 115 v - mean) / max std (1 / 100000000))
                    (arr_data (h ! img))"
    using ct_window_run_data [OF assms, of "- 15" 115]
    by (simp add: CTWindowNeg15To115Normalization_run_def)
  have r100: "\<exists>r. fst (CTWindowNeg100To200Normalization_run self img h) = Inr r
            \<and> arr_data (snd (CTWindowNeg100To200Normalization_run self img h) ! r)
                = map (\<lambda>v. (clip_value (- 100) 200 v - mean) / max std (1 / 100000000))
                    (arr_data (h ! img))"
    using ct_window_run_data [OF assms, of "- 100" 200]
    by (simp add: CTWindowNeg100To200Normalization_run_def)
  have dyn: "\<exists>r. fst (create_run_method lower upper self img h) = Inr r
            \<and> arr_data (snd (create_run_method lower upper self img h) ! r)
                = map (\<lambda>v. (clip_value (of_int lower) (of_int upper) v - mean)
                           / max std (1 / 100000000))
                    (arr_data (h ! img))"
    by (rule create_run_method_data [OF assms])
  from eq pos low high r15 r100 dyn show ?thesis by blast
qed

theorem divisor_is_clamped_and_positive_witness:
  "(py_max 0 (1 / 100000000) = 1 / 100000000
    \<and> (\<exists>r. fst (CTWindowNeg15To115Normalization_run
              \<lparr>intensityproperties = Some [''mean'' \<mapsto> 100, ''std'' \<mapsto> 0], target_dtype = Float32\<rparr>
              0 [\<lparr>arr_dtype = Floating Float32, arr_data = [500, 0]\<rparr>]) = Inr r
       \<and> arr_data (snd (CTWindowNeg15To115Normalization_run
              \<lparr>intensityproperties = Some [''mean'' \<mapsto> 100, ''std'' \<mapsto> 0], target_dtype = Float32\<rparr>
              0 [\<lparr>arr_dtype = Floating Float32, arr_data = [500, 0]\<rparr>]) ! r)
           = [1500000000, - 10000000000])
    \<and> (\<exists>r. fst (create_run_method (- 15) 115
              \<lparr>intensityproperties = Some [''mean'' \<mapsto> 100, ''std'' \<mapsto> 0], target_dtype = Float32\<rparr>
              0 [\<lparr>arr_dtype = Floating Float32, arr_data = [500, 0]\<rparr>]) = Inr r
       \<and> arr_data (snd (create_run_method (- 15) 115
              \<lparr>intensityproperties = Some [''mean'' \<mapsto> 100, ''std'' \<mapsto> 0], target_dtype = Float32\<rparr>
              0 [\<lparr>arr_dtype = Floating Float32, arr_data = [500, 0]\<rparr>]) ! r)
           = [1500000000, - 10000000000]))
   \<and> (py_max 50 (1 / 100000000) = 50
    \<and> (\<exists>r. fst (CTWindowNeg15To115Normalization_run
              \<lparr>intensityproperties = Some [''mean'' \<mapsto> 100, ''std'' \<mapsto> 50], target_dtype = Float32\<rparr>
              0 [\<lparr>arr_dtype = Floating Float32, arr_data = [500, 0]\<rparr>]) = Inr r
       \<and> arr_data (snd (CTWindowNeg15To115Normalization_run
              \<lparr>intensityproperties = Some [''mean'' \<mapsto> 100, ''std'' \<mapsto> 50], target_dtype = Float32\<rparr>
              0 [\<lparr>arr_dtype = Floating Float32, arr_data = [500, 0]\<rparr>]) ! r)
           = [3 / 10, - 2])
    \<and> (\<exists>r. fst (create_run_method (- 15) 115
              \<lparr>intensityproperties = Some [''mean'' \<mapsto> 100, ''std'' \<mapsto> 50], target_dtype = Float32\<rparr>
              0 [\<lparr>arr_dtype = Floating Float32, arr_data = [500, 0]\<rparr>]) = Inr r
       \<and> arr_data (snd (create_run_method (- 15) 115
              \<lparr>intensityproperties = Some [''mean'' \<mapsto> 100, ''std'' \<mapsto> 50], target_dtype = Float32\<rparr>
              0 [\<lparr>arr_dtype = Floating Float32, arr_data = [500, 0]\<rparr>]) ! r)
           = [3 / 10, - 2]))"
proof -
  have low: "(0::real) \<le> 1 / 100000000" and high: "(1::real) / 100000000 \<le> 50"
    by simp_all
  show ?thesis
    using divisor_is_clamped_and_positive
        [of 0 "[\<lparr>arr_dtype = Floating Float32, arr_data = [500, 0]\<rparr>]"
            "\<lparr>intensityproperties = Some [''mean'' \<mapsto> 100, ''std'' \<mapsto> 0], target_dtype = Float32\<rparr>"
            "[''mean'' \<mapsto> 100, ''std'' \<mapsto> 0]" 100 0 "- 15" 115]
      divisor_is_clamped_and_positive
        [of 0 "[\<lparr>arr_dtype = Floating Float32, arr_data = [500, 0]\<rparr>]"
            "\<lparr>intensityproperties = Some [''mean'' \<mapsto> 100, ''std'' \<mapsto> 50], target_dtype = Float32\<rparr>"
            "[''mean'' \<mapsto> 100, ''std'' \<mapsto> 50]" 100 50 "- 15" 115]
      low high
    by (simp add: clip_value_def)
qed

text \<open>
  C8. A fixed-window run on an array that already has the target type returns the very
  reference it was given, and afterwards that array holds the normalized values; nothing
  else on the heap changes and no array is made. On an array of another type it returns a
  new array and leaves the input as it was. The synthesized run always returns a new
  array, different from the input, and every array that existed before the call, the input
  among them, is unchanged.
\<close>

theorem fixed_runs_in_place_dynamic_run_copies:
  assumes "img < length h"
    and "intensityproperties self = Some props"
    and "props ''mean'' = Some mean" and "props ''std'' = Some std"
  shows "(arr_dtype (h ! img) = Floating (target_dtype self) \<longrightarrow>
            CTWindowNeg15To115Normalization_run self img h =
              (Inr img,
               h[img := (h ! img)\<lparr>arr_data :=
                    map (\<lambda>v. (clip_value (- 15) 115 v - mean) / max std (1 / 100000000))
                      (arr_data (h ! img))\<rparr>])
          \<and> CTWindowNeg100To200Normalization_run self img h =
              (Inr img,
               h[img := (h ! img)\<lparr>arr_data :=
                    map (\<lambda>v. (clip_value (- 100) 200 v - mean) / max std (1 / 100000000))
                      (arr_data (h ! img))\<rparr>]))
       \<and> (arr_dtype (h ! img) \<noteq> Floating (target_dtype self) \<longrightarrow>
            fst (CTWindowNeg15To115Normalization_run self img h) = Inr (length h)
          \<and> take (length h) (snd (CTWindowNeg15To115Normalization_run self img h)) = h
          \<and> fst (CTWindowNeg100To200Normalization_run self img h) = Inr (length h)
          \<and> take (length h) (snd (CTWindowNeg100To200Normalization_run self img h)) = h)
       \<and> (\<exists>r. fst (create_run_method lower upper self img h) = Inr r
             \<and> r \<noteq> img \<and> length h \<le> r
             \<and> take (length h) (snd (create_run_method lower upper self img h)) = h
             \<and> snd (create_run_method lower upper self img h) ! img = h ! img
             \<and> arr_data (snd (create_run_method lower upper self img h) ! r)
                 = map (\<lambda>v. (clip_value (of_int lower) (of_int upper) v - mean)
                            / max std (1 / 100000000))
                     (arr_data (h ! img)))"
proof (intro conjI impI)
  assume same: "arr_dtype (h ! img) = Floating (target_dtype self)"
  show "CTWindowNeg15To115Normalization_run self img h =
          (Inr img,
           h[img := (h ! img)\<lparr>arr_data :=
                map (\<lambda>v. (clip_value (- 15) 115 v - mean) / max std (1 / 100000000))
                  (arr_data (h ! img))\<rparr>])"
    using ct_window_run_in_place [OF assms same, of "- 15" 115]
    by (simp add: CTWindowNeg15To115Normalization_run_def)
  show "CTWindowNeg100To200Normalization_run self img h =
          (Inr img,
           h[img := (h ! img)\<lparr>arr_data :=
                map (\<lambda>v. (clip_value (- 100) 200 v - mean) / max std (1 / 100000000))
                  (arr_data (h ! img))\<rparr>])"
    using ct_window_run_in_place [OF assms same, of "- 100" 200]
    by (simp add: CTWindowNeg100To200Normalization_run_def)
next
  assume other: "arr_dtype (h ! img) \<noteq> Floating (target_dtype self)"
  show "fst (CTWindowNeg15To115Normalization_run self img h) = Inr (length h)"
    "take (length h) (snd (CTWindowNeg15To115Normalization_run self img h)) = h"
    using ct_window_run_cast [OF assms(2-4) other, of "- 15" 115]
    by (simp_all add: CTWindowNeg15To115Normalization_run_def)
  show "fst (CTWindowNeg100To200Normalization_run self img h) = Inr (length h)"
    "take (length h) (snd (CTWindowNeg100To200Normalization_run self img h)) = h"
    using ct_window_run_cast [OF assms(2-4) other, of "- 100" 200]
    by (simp_all add: CTWindowNeg100To200Normalization_run_def)
next
  show "\<exists>r. fst (create_run_method lower upper self img h) = Inr r
             \<and> r \<noteq> img \<and> length h \<le> r
             \<and> take (length h) (snd (create_run_method lower upper self img h)) = h
             \<and> snd (create_run_method lower upper self img h) ! img = h ! img
             \<and> arr_data (snd (create_run_method lower upper self img h) ! r)
                 = map (\<lambda>v. (clip_value (of_int lower) (of_int upper) v - mean)
                            / max std (1 / 100000000))
                     (arr_data (h ! img))"
    using create_run_method_copies [OF assms, of lower upper] assms(1)
    by (simp add: nth_append)
qed

theorem fixed_runs_in_place_dynamic_run_copies_witness:
  "CTWindowNeg15To115Normalization_run
       \<lparr>intensityproperties = Some [''mean'' \<mapsto> 100, ''std'' \<mapsto> 50], target_dtype = Float32\<rparr>
       0 [\<lparr>arr_dtype = Floating Float32, arr_data = [500, - 1000]\<rparr>]
     = (Inr 0, [\<lparr>arr_dtype = Floating Float32, arr_data = [3 / 10, - 23 / 10]\<rparr>])
   \<and> fst (CTWindowNeg15To115Normalization_run
       \<lparr>intensityproperties = Some [''mean'' \<mapsto> 100, ''std'' \<mapsto> 50], target_dtype = Float32\<rparr>
       0 [\<lparr>arr_dtype = Integer, arr_data = [500, - 1000]\<rparr>]) = Inr 1
   \<and> take 1 (snd (CTWindowNeg15To115Normalization_run
       \<lparr>intensityproperties = Some [''mean'' \<mapsto> 100, ''std'' \<mapsto> 50], target_dtype = Float32\<rparr>
       0 [\<lparr>arr_dtype = Integer, arr_data = [500, - 1000]\<rparr>]))
     = [\<lparr>arr_dtype = Integer, arr_data = [500, - 1000]\<rparr>]
   \<and> (\<exists>r. fst (create_run_method (- 15) 115
             \<lparr>intensityproperties = Some [''mean'' \<mapsto> 100, ''std'' \<mapsto> 50], target_dtype = Float32\<rparr>
             0 [\<lparr>arr_dtype = Floating Float32, arr_data = [500, - 1000]\<rparr>]) = Inr r
         \<and> r \<noteq> 0
         \<and> snd (create_run_method (- 15) 115
             \<lparr>intensityproperties = Some [''mean'' \<mapsto> 100, ''std'' \<mapsto> 50], target_dtype = Float32\<rparr>
             0 [\<lparr>arr_dtype = Floating Float32, arr_data = [500, - 1000]\<rparr>]) ! 0
           = \<lparr>arr_dtype = Floating Float32, arr_data = [500, - 1000]\<rparr>
         \<and> arr_data (snd (create_run_method (- 15) 115
             \<lparr>intensityproperties = Some [''mean'' \<mapsto> 100, ''std'' \<mapsto> 50], target_dtype = Float32\<rparr>
             0 [\<lparr>arr_dtype = Floating Float32, arr_data = [500, - 1000]\<rparr>]) ! r)
           = [3 / 10, - 23 / 10])"
  using fixed_runs_in_place_dynamic_run_copies
    [of 0 "[\<lparr>arr_dtype = Floating Float32, arr_data = [500, - 1000]\<rparr>]"
        "\<lparr>intensityproperties = Some [''mean'' \<mapsto> 100, ''std'' \<mapsto> 50], target_dtype = Float32\<rparr>"
        "[''mean'' \<mapsto> 100, ''std'' \<mapsto> 50]" 100 50 "- 15" 115]
    fixed_runs_in_place_dynamic_run_copies
    [of 0 "[\<lparr>arr_dtype = Integer, arr_data = [500, - 1000]\<rparr>]"
        "\<lparr>intensityproperties = Some [''mean'' \<mapsto> 100, ''std'' \<mapsto> 50], target_dtype = Float32\<rparr>"
        "[''mean'' \<mapsto> 100, ''std'' \<mapsto> 50]" 100 50 "- 15" 115]
  by (auto simp add: clip_value_def)

end
